theory Spec2Isabelle
  imports Main
begin

section \<open>JavaScript values\<close>

text \<open>
  Two places of the program use an object under a type it was not built for: the hook
  declares the error of every mutation as \<open>ApiError\<close> while the value is whatever axios
  rejected with, and \<open>getClients\<close> hands its \<open>GetClientsRequest\<close> to axios as a request
  configuration. Both are property reads on an object whose keys are decided at run time,
  so objects are association lists of property names and values.
\<close>

datatype jsval =
    JUndefined
  | JNull
  | JBool bool
  | JNum int
  | JStr string
  | JObj "(string \<times> jsval) list"

text \<open>\<open>o.k\<close> on an object: the value stored under \<open>k\<close>, \<open>undefined\<close> when there is none.\<close>

definition get_prop :: "(string \<times> jsval) list \<Rightarrow> string \<Rightarrow> jsval" where
  "get_prop kvs k = (case map_of kvs k of Some v \<Rightarrow> v | None \<Rightarrow> JUndefined)"

text \<open>
  \<open>v?.k\<close>: \<open>undefined\<close> when \<open>v\<close> is \<open>undefined\<close> or \<open>null\<close>, the property read otherwise.
  A boolean, a number or a string has no own property of the names read here.
\<close>

fun opt_chain :: "jsval \<Rightarrow> string \<Rightarrow> jsval" where
  "opt_chain (JObj kvs) k = get_prop kvs k"
| "opt_chain v k = JUndefined"

text \<open>
  The truth value of a \<open>string | null\<close>, as \<open>if (token)\<close> and \<open>!!token\<close> take it: \<open>null\<close> and
  the empty string are falsy, every other string is truthy.
\<close>

fun truthy :: "string option \<Rightarrow> bool" where
  "truthy None = False"
| "truthy (Some s) = (s \<noteq> [])"

text \<open>Decimal digits of a number, for the message axios builds from a status code.\<close>

fun dec :: "nat \<Rightarrow> string" where
  "dec n = (if n < 10 then [char_of (48 + n)] else dec (n div 10) @ [char_of (48 + n mod 10)])"

declare dec.simps [simp del]

definition show_int :: "int \<Rightarrow> string" where
  "show_int i = (if i < 0 then CHR ''-'' # dec (nat (- i)) else dec (nat i))"

section \<open>types/api.ts\<close>

record User =
  user_id :: int
  user_email :: string
  user_password :: string
  user_is_active :: bool

record Client =
  client_id :: int
  client_name :: string
  client_email :: string
  client_is_active :: bool

record LoginRequest =
  login_email :: string
  login_password :: string

record LoginResponse =
  access_token :: string
  token_type :: string

record RegisterRequest =
  register_email :: string
  register_password :: string
  register_is_active :: "bool option"

record RegisterClientRequest =
  new_client_name :: string
  new_client_email :: string
  new_client_is_active :: "bool option"

record GetClientsRequest =
  skip :: int
  limit :: int

text \<open>
  The object each request value is at run time. An optional field that was not given is
  no property of the object.
\<close>

definition optional_bool :: "string \<Rightarrow> bool option \<Rightarrow> (string \<times> jsval) list" where
  "optional_bool k b = (case b of None \<Rightarrow> [] | Some v \<Rightarrow> [(k, JBool v)])"

definition obj_of_LoginRequest :: "LoginRequest \<Rightarrow> (string \<times> jsval) list" where
  "obj_of_LoginRequest c =
     [(''email'', JStr (login_email c)), (''password'', JStr (login_password c))]"

definition obj_of_RegisterRequest :: "RegisterRequest \<Rightarrow> (string \<times> jsval) list" where
  "obj_of_RegisterRequest u =
     [(''email'', JStr (register_email u)), (''password'', JStr (register_password u))]
     @ optional_bool ''is_active'' (register_is_active u)"

definition obj_of_RegisterClientRequest :: "RegisterClientRequest \<Rightarrow> (string \<times> jsval) list" where
  "obj_of_RegisterClientRequest c =
     [(''name'', JStr (new_client_name c)), (''email'', JStr (new_client_email c))]
     @ optional_bool ''is_active'' (new_client_is_active c)"

definition obj_of_GetClientsRequest :: "GetClientsRequest \<Rightarrow> (string \<times> jsval) list" where
  "obj_of_GetClientsRequest r = [(''skip'', JNum (skip r)), (''limit'', JNum (limit r))]"

section \<open>The browser state the program acts on\<close>

text \<open>
  \<open>localStorage\<close> is the durable key-value store of the browser: \<open>getItem\<close> answers \<open>null\<close>
  (here \<open>None\<close>) for a key that is not stored. A navigation is either an assignment to
  \<open>window.location.href\<close> or a \<open>router.push\<close>; they are recorded in the order they happen.
  \<open>clients\<close> is the React state of the hook, \<open>queryCache\<close> what \<open>queryClient.clear()\<close>
  empties, \<open>console\<close> what \<open>console.log\<close> printed.

  The mutations and \<open>logout\<close> are called from event handlers and effects of the pages,
  which run in the browser only, where \<open>window\<close> and \<open>localStorage\<close> exist: they act on
  a \<open>world\<close>. Only the body of the hook, and with it \<open>isAuthenticated()\<close>, also runs
  where a page is rendered without a \<open>window\<close>.
\<close>

datatype navigation = Location_href string | Router_push string

record world =
  localStorage :: "string \<rightharpoonup> string"
  navigations :: "navigation list"
  clients :: "Client list"
  queryCache :: "jsval list"
  console :: "jsval list"

definition getItem :: "world \<Rightarrow> string \<Rightarrow> string option" where
  "getItem w k = localStorage w k"

definition setItem :: "string \<Rightarrow> string \<Rightarrow> world \<Rightarrow> world" where
  "setItem k v w = w\<lparr>localStorage := (localStorage w)(k \<mapsto> v)\<rparr>"

definition removeItem :: "string \<Rightarrow> world \<Rightarrow> world" where
  "removeItem k w = w\<lparr>localStorage := (localStorage w)(k := None)\<rparr>"

definition location_href_assign :: "string \<Rightarrow> world \<Rightarrow> world" where
  "location_href_assign p w = w\<lparr>navigations := navigations w @ [Location_href p]\<rparr>"

definition router_push :: "string \<Rightarrow> world \<Rightarrow> world" where
  "router_push p w = w\<lparr>navigations := navigations w @ [Router_push p]\<rparr>"

definition setClients :: "Client list \<Rightarrow> world \<Rightarrow> world" where
  "setClients cs w = w\<lparr>clients := cs\<rparr>"

definition queryClient_clear :: "world \<Rightarrow> world" where
  "queryClient_clear w = w\<lparr>queryCache := []\<rparr>"

definition console_log :: "jsval \<Rightarrow> world \<Rightarrow> world" where
  "console_log v w = w\<lparr>console := console w @ [v]\<rparr>"

definition fresh_world :: world where
  "fresh_world =
     \<lparr>localStorage = Map.empty, navigations = [], clients = [], queryCache = [], console = []\<rparr>"

section \<open>lib/api.ts: the axios instance\<close>

text \<open>
  What axios puts on the wire for a call: the method, the path under \<open>baseURL\<close>, the
  \<open>params\<close> it serialises into the query string (\<open>undefined\<close>: no query string), the body
  and the headers.
\<close>

record request =
  req_method :: string
  req_baseURL :: string
  req_url :: string
  req_params :: jsval
  req_data :: jsval
  req_headers :: "string \<rightharpoonup> string"

definition API_BASE_URL :: string where
  "API_BASE_URL = ''http://localhost:8000''"

definition default_headers :: "string \<rightharpoonup> string" where
  "default_headers = [''Content-Type'' \<mapsto> ''application/json'']"

text \<open>
  The headers a caller's configuration object names (none when it has no \<open>headers\<close>
  property), laid over the instance's defaults.
\<close>

fun config_headers :: "jsval \<Rightarrow> (string \<times> string) list" where
  "config_headers (JObj []) = []"
| "config_headers (JObj ((k, JStr v) # kvs)) = (k, v) # config_headers (JObj kvs)"
| "config_headers (JObj (kv # kvs)) = config_headers (JObj kvs)"
| "config_headers v = []"

text \<open>
  \<open>api.post(url, data)\<close> and \<open>api.get(url, config)\<close>: the second argument of \<open>post\<close> is the
  body, the second argument of \<open>get\<close> is the request configuration, of which axios reads
  \<open>params\<close> and \<open>headers\<close>; properties of other names change nothing of the request.
\<close>

definition api_post :: "string \<Rightarrow> (string \<times> jsval) list \<Rightarrow> request" where
  "api_post u d =
     \<lparr>req_method = ''post'', req_baseURL = API_BASE_URL, req_url = u,
      req_params = JUndefined, req_data = JObj d, req_headers = default_headers\<rparr>"

definition api_get :: "string \<Rightarrow> (string \<times> jsval) list \<Rightarrow> request" where
  "api_get u config =
     \<lparr>req_method = ''get'', req_baseURL = API_BASE_URL, req_url = u,
      req_params = get_prop config ''params'', req_data = JUndefined,
      req_headers = default_headers ++ map_of (config_headers (get_prop config ''headers''))\<rparr>"

text \<open>
  The request interceptor:
  \<^verbatim>\<open>const token = localStorage.getItem('auth_token');
  if (token) { config.headers.Authorization = `Bearer ${token}`; }
  return config;\<close>
\<close>

definition request_interceptor :: "world \<Rightarrow> request \<Rightarrow> request" where
  "request_interceptor w config =
     (case getItem w ''auth_token'' of
        None \<Rightarrow> config
      | Some token \<Rightarrow>
          if truthy (Some token)
          then config\<lparr>req_headers := (req_headers config)(''Authorization'' \<mapsto> ''Bearer '' @ token)\<rparr>
          else config)"

text \<open>
  The answer of the remote API to one call: a response with a status of the 2xx range and
  its body, a response with any other status (one the default \<open>validateStatus\<close> refuses:
  below 200 or from 300 on) and its body, or no response at all. axios
  resolves the first and rejects the other two with an \<open>AxiosError\<close>, which carries the
  response (its \<open>status\<close> and its parsed \<open>data\<close>) under \<open>response\<close> when there is one.
\<close>

datatype 'a reply = Reply_2xx 'a | Reply_other int jsval | No_reply

definition AxiosError :: "int \<Rightarrow> jsval \<Rightarrow> (string \<times> jsval) list" where
  "AxiosError s body =
     [(''name'', JStr ''AxiosError''),
      (''message'', JStr (''Request failed with status code '' @ show_int s)),
      (''response'', JObj [(''status'', JNum s), (''data'', body)])]"

definition NetworkError :: "(string \<times> jsval) list" where
  "NetworkError = [(''name'', JStr ''AxiosError''), (''message'', JStr ''Network Error'')]"

text \<open>
  The response interceptor. A fulfilled response is returned as it is. A rejection:
  \<^verbatim>\<open>if (error.response?.status === 401) {
    localStorage.removeItem('auth_token');
    window.location.href = '/login';
  }
  return Promise.reject(error);\<close>
  The result is the state afterwards and the value the promise is rejected with.
\<close>

definition response_fulfilled :: "'a \<Rightarrow> 'a" where
  "response_fulfilled response = response"

definition response_rejected :: "world \<Rightarrow> (string \<times> jsval) list \<Rightarrow> world \<times> (string \<times> jsval) list" where
  "response_rejected w error =
     (if opt_chain (get_prop error ''response'') ''status'' = JNum 401
      then (location_href_assign ''/login'' (removeItem ''auth_token'' w), error)
      else (w, error))"

text \<open>
  One call through the instance: the request as it leaves after the request
  interceptor, the state after the response interceptor, and what the promise settles
  to (\<open>Inl\<close> the rejection, \<open>Inr\<close> the \<open>response.data\<close> the \<open>authApi\<close> function returns).
\<close>

definition api_call ::
  "world \<Rightarrow> request \<Rightarrow> 'a reply \<Rightarrow> request \<times> world \<times> ((string \<times> jsval) list + 'a)" where
  "api_call w config r =
     (let sent = request_interceptor w config in
      case r of
        Reply_2xx d \<Rightarrow> (sent, w, Inr (response_fulfilled d))
      | Reply_other s body \<Rightarrow>
          (let (w', e) = response_rejected w (AxiosError s body) in (sent, w', Inl e))
      | No_reply \<Rightarrow>
          (let (w', e) = response_rejected w NetworkError in (sent, w', Inl e)))"

definition authApi_login ::
  "world \<Rightarrow> LoginRequest \<Rightarrow> LoginResponse reply
   \<Rightarrow> request \<times> world \<times> ((string \<times> jsval) list + LoginResponse)" where
  "authApi_login w credentials r =
     api_call w (api_post ''/auth/login'' (obj_of_LoginRequest credentials)) r"

definition authApi_register ::
  "world \<Rightarrow> RegisterRequest \<Rightarrow> User reply
   \<Rightarrow> request \<times> world \<times> ((string \<times> jsval) list + User)" where
  "authApi_register w userData r =
     api_call w (api_post ''/auth/register'' (obj_of_RegisterRequest userData)) r"

definition authApi_registerClient ::
  "world \<Rightarrow> RegisterClientRequest \<Rightarrow> Client reply
   \<Rightarrow> request \<times> world \<times> ((string \<times> jsval) list + Client)" where
  "authApi_registerClient w clientData r =
     api_call (console_log (JObj (obj_of_RegisterClientRequest clientData)) w)
       (api_post ''/clients'' (obj_of_RegisterClientRequest clientData)) r"

definition authApi_getClients ::
  "world \<Rightarrow> GetClientsRequest \<Rightarrow> Client list reply
   \<Rightarrow> request \<times> world \<times> ((string \<times> jsval) list + Client list)" where
  "authApi_getClients w clientData r =
     api_call w (api_get ''/clients'' (obj_of_GetClientsRequest clientData)) r"

section \<open>hooks/use-auth.ts\<close>

text \<open>
  A mutation of the query library: \<open>mutate(variables)\<close> runs \<open>mutationFn\<close>; when its
  promise is fulfilled the mutation holds the data and \<open>onSuccess\<close> has run with it, when
  it is rejected the mutation holds the rejection as its \<open>error\<close> and no hook of this
  program runs. The result is the state and the mutation once the call has settled.
\<close>

datatype mutation_status = Idle | Pending | Success | Error

record 'a mutation =
  status :: mutation_status
  data :: "'a option"
  error :: "(string \<times> jsval) list option"

definition idle_mutation :: "'a mutation" where
  "idle_mutation = \<lparr>status = Idle, data = None, error = None\<rparr>"

definition mutate ::
  "(world \<Rightarrow> 'v \<Rightarrow> 'a reply \<Rightarrow> request \<times> world \<times> ((string \<times> jsval) list + 'a))
   \<Rightarrow> ('a \<Rightarrow> world \<Rightarrow> world) \<Rightarrow> world \<Rightarrow> 'v \<Rightarrow> 'a reply \<Rightarrow> world \<times> 'a mutation" where
  "mutate mutationFn onSuccess w variables r =
     (case mutationFn w variables r of
        (sent, w', Inr d) \<Rightarrow> (onSuccess d w', \<lparr>status = Success, data = Some d, error = None\<rparr>)
      | (sent, w', Inl e) \<Rightarrow> (w', \<lparr>status = Error, data = None, error = Some e\<rparr>))"

definition login_onSuccess :: "LoginResponse \<Rightarrow> world \<Rightarrow> world" where
  "login_onSuccess d w = router_push ''/clients'' (setItem ''auth_token'' (access_token d) w)"

definition register_onSuccess :: "User \<Rightarrow> world \<Rightarrow> world" where
  "register_onSuccess d w = router_push ''/login?message=Registration successful'' w"

definition registerClient_onSuccess :: "Client \<Rightarrow> world \<Rightarrow> world" where
  "registerClient_onSuccess d w =
     router_push ''/clients?message=Client registration successful'' w"

definition clients_onSuccess :: "Client list \<Rightarrow> world \<Rightarrow> world" where
  "clients_onSuccess d w = setClients d w"

definition loginMutation ::
  "world \<Rightarrow> LoginRequest \<Rightarrow> LoginResponse reply \<Rightarrow> world \<times> LoginResponse mutation" where
  "loginMutation = mutate authApi_login login_onSuccess"

definition registerMutation ::
  "world \<Rightarrow> RegisterRequest \<Rightarrow> User reply \<Rightarrow> world \<times> User mutation" where
  "registerMutation = mutate authApi_register register_onSuccess"

definition registerClientMutation ::
  "world \<Rightarrow> RegisterClientRequest \<Rightarrow> Client reply \<Rightarrow> world \<times> Client mutation" where
  "registerClientMutation = mutate authApi_registerClient registerClient_onSuccess"

definition clientsMutation ::
  "world \<Rightarrow> GetClientsRequest \<Rightarrow> Client list reply \<Rightarrow> world \<times> Client list mutation" where
  "clientsMutation = mutate authApi_getClients clients_onSuccess"

text \<open>
  \<^verbatim>\<open>localStorage.removeItem('auth_token'); queryClient.clear();
  setClients([]); router.push('/login');\<close>
\<close>

definition logout :: "world \<Rightarrow> world" where
  "logout w =
     router_push ''/login'' (setClients [] (queryClient_clear (removeItem ''auth_token'' w)))"

text \<open>
  \<^verbatim>\<open>if (typeof window === 'undefined') return false;
  return !!localStorage.getItem('auth_token');\<close>
  The hook calls \<open>isAuthenticated()\<close> on every render, also where the page is rendered
  on the server and there is no \<open>window\<close>: the argument is the browser state, \<open>None\<close> where
  there is none.
\<close>

definition isAuthenticated :: "world option \<Rightarrow> bool" where
  "isAuthenticated window =
     (case window of None \<Rightarrow> False | Some w \<Rightarrow> truthy (getItem w ''auth_token''))"

text \<open>
  What the pages read of a mutation's error, \<open>error.detail\<close> (they render it only when
  \<open>error\<close> is not \<open>null\<close>).
\<close>

definition error_detail :: "'a mutation \<Rightarrow> jsval" where
  "error_detail m = (case error m of None \<Rightarrow> JUndefined | Some e \<Rightarrow> get_prop e ''detail'')"

section \<open>Runs of the program\<close>

text \<open>
  What can happen to the state: one of the four mutations is invoked and the remote API
  answers, or the user logs out. A run starts from any state and takes the events in
  order.
\<close>

datatype event =
    Login LoginRequest "LoginResponse reply"
  | Register RegisterRequest "User reply"
  | RegisterClient RegisterClientRequest "Client reply"
  | GetClients GetClientsRequest "Client list reply"
  | Logout

fun step :: "world \<Rightarrow> event \<Rightarrow> world" where
  "step w (Login c r) = fst (loginMutation w c r)"
| "step w (Register u r) = fst (registerMutation w u r)"
| "step w (RegisterClient c r) = fst (registerClientMutation w c r)"
| "step w (GetClients q r) = fst (clientsMutation w q r)"
| "step w Logout = logout w"

fun run :: "world \<Rightarrow> event list \<Rightarrow> world" where
  "run w [] = w"
| "run w (e # es) = run (step w e) es"

text \<open>The answers with status 401, and the logins that store an empty token.\<close>

fun unauthorized :: "'a reply \<Rightarrow> bool" where
  "unauthorized (Reply_other s body) = (s = 401)"
| "unauthorized r = False"

fun stores_empty_token :: "LoginResponse reply \<Rightarrow> bool" where
  "stores_empty_token (Reply_2xx d) = (access_token d = [])"
| "stores_empty_token r = False"

text \<open>
  The events that are neither a logout, nor an answer with status 401, nor a login that
  stores an empty token.
\<close>

fun keeps_session :: "event \<Rightarrow> bool" where
  "keeps_session (Login c r) = (\<not> unauthorized r \<and> \<not> stores_empty_token r)"
| "keeps_session (Register u r) = (\<not> unauthorized r)"
| "keeps_session (RegisterClient c r) = (\<not> unauthorized r)"
| "keeps_session (GetClients q r) = (\<not> unauthorized r)"
| "keeps_session Logout = False"

section \<open>Auxiliary facts\<close>

lemmas world_ops = getItem_def setItem_def removeItem_def location_href_assign_def
  router_push_def setClients_def queryClient_clear_def console_log_def

lemmas mutations = loginMutation_def registerMutation_def registerClientMutation_def
  clientsMutation_def authApi_login_def authApi_register_def authApi_registerClient_def
  authApi_getClients_def login_onSuccess_def register_onSuccess_def
  registerClient_onSuccess_def clients_onSuccess_def

lemma status_AxiosError:
  "opt_chain (get_prop (AxiosError s b) ''response'') ''status'' = JNum s"
  by (simp add: AxiosError_def get_prop_def)

lemma status_NetworkError:
  "opt_chain (get_prop NetworkError ''response'') ''status'' = JUndefined"
  by (simp add: NetworkError_def get_prop_def)

lemma api_call_401:
  "api_call w q (Reply_other 401 b) =
     (request_interceptor w q, location_href_assign ''/login'' (removeItem ''auth_token'' w),
      Inl (AxiosError 401 b))"
  by (simp add: api_call_def response_rejected_def status_AxiosError)

lemma api_call_other:
  "s \<noteq> 401 \<Longrightarrow>
   api_call w q (Reply_other s b) = (request_interceptor w q, w, Inl (AxiosError s b))"
  by (simp add: api_call_def response_rejected_def status_AxiosError)

lemma api_call_no_reply:
  "api_call w q No_reply = (request_interceptor w q, w, Inl NetworkError)"
  by (simp add: api_call_def response_rejected_def status_NetworkError)

lemma api_call_2xx:
  "api_call w q (Reply_2xx d) = (request_interceptor w q, w, Inr d)"
  by (simp add: api_call_def response_fulfilled_def)

lemma api_call_sent: "fst (api_call w q r) = request_interceptor w q"
  by (cases r) (simp_all add: api_call_def split: prod.splits)

lemma authenticated_iff:
  "isAuthenticated (Some w) \<longleftrightarrow> (\<exists>t. localStorage w ''auth_token'' = Some t \<and> t \<noteq> [])"
  by (cases "localStorage w ''auth_token''") (simp_all add: isAuthenticated_def getItem_def)

text \<open>
  An event that is no logout, no answer with status 401 and no login with an empty token
  leaves an authenticated state authenticated: a login overwrites the token with a
  non-empty one, every other event leaves \<open>localStorage\<close> as it is.
\<close>

lemma step_keeps_session:
  assumes "keeps_session e" and "isAuthenticated (Some w)"
  shows "isAuthenticated (Some (step w e))"
proof (cases e)
  case (Login c r)
  with assms show ?thesis
    by (cases r)
      (auto simp: mutations mutate_def api_call_2xx api_call_other api_call_no_reply
        isAuthenticated_def world_ops)
next
  case (Register u r)
  with assms show ?thesis
    by (cases r)
      (auto simp: mutations mutate_def api_call_2xx api_call_other api_call_no_reply
        isAuthenticated_def world_ops)
next
  case (RegisterClient c r)
  with assms show ?thesis
    by (cases r)
      (auto simp: mutations mutate_def api_call_2xx api_call_other api_call_no_reply
        isAuthenticated_def world_ops)
next
  case (GetClients q r)
  with assms show ?thesis
    by (cases r)
      (auto simp: mutations mutate_def api_call_2xx api_call_other api_call_no_reply
        isAuthenticated_def world_ops)
next
  case Logout
  with assms show ?thesis by simp
qed

lemma run_keeps_session:
  "list_all keeps_session evs \<Longrightarrow> isAuthenticated (Some w)
   \<Longrightarrow> isAuthenticated (Some (run w evs))"
  by (induction evs arbitrary: w) (simp_all add: step_keeps_session)

lemma list_all_take: "list_all P xs \<Longrightarrow> list_all P (take n xs)"
  by (auto simp: list_all_iff dest: in_set_takeD)

lemma login_stores_token:
  "access_token d \<noteq> [] \<Longrightarrow> isAuthenticated (Some (fst (loginMutation w c (Reply_2xx d))))"
  by (simp add: mutations mutate_def api_call_2xx isAuthenticated_def world_ops)

lemma interceptor_authorization:
  "req_headers (request_interceptor w q) ''Authorization'' =
     (case localStorage w ''auth_token'' of
        None \<Rightarrow> req_headers q ''Authorization''
      | Some t \<Rightarrow> if t = [] then req_headers q ''Authorization'' else Some (''Bearer '' @ t))"
  by (simp add: request_interceptor_def getItem_def split: option.splits)

lemma post_no_authorization: "req_headers (api_post u d) ''Authorization'' = None"
  by (simp add: api_post_def default_headers_def)

lemma getClients_no_authorization:
  "req_headers (api_get ''/clients'' (obj_of_GetClientsRequest q)) ''Authorization'' = None"
  by (simp add: api_get_def default_headers_def obj_of_GetClientsRequest_def get_prop_def)

section \<open>The claims\<close>

text \<open>
  C1. A rejection whose response has status 401 makes the response interceptor remove the
  token stored under \<open>auth_token\<close>, so that \<open>isAuthenticated()\<close> is false afterwards, assign
  \<open>/login\<close> to \<open>window.location.href\<close> once, and reject with the same error. Each of the four
  mutations answered with status 401 therefore ends in the error state holding that error,
  with the token removed and that one navigation added.
\<close>

theorem unauthorized_clears_token_and_redirects:
  assumes "opt_chain (get_prop e ''response'') ''status'' = JNum 401"
  shows "response_rejected w e =
           (w\<lparr>localStorage := (localStorage w)(''auth_token'' := None),
              navigations := navigations w @ [Location_href ''/login'']\<rparr>, e)
       \<and> \<not> isAuthenticated (Some (fst (response_rejected w e)))
       \<and> loginMutation w c (Reply_other 401 b) =
           (w\<lparr>localStorage := (localStorage w)(''auth_token'' := None),
              navigations := navigations w @ [Location_href ''/login'']\<rparr>,
            \<lparr>status = Error, data = None, error = Some (AxiosError 401 b)\<rparr>)
       \<and> registerMutation w u (Reply_other 401 b) =
           (w\<lparr>localStorage := (localStorage w)(''auth_token'' := None),
              navigations := navigations w @ [Location_href ''/login'']\<rparr>,
            \<lparr>status = Error, data = None, error = Some (AxiosError 401 b)\<rparr>)
       \<and> registerClientMutation w n (Reply_other 401 b) =
           (w\<lparr>localStorage := (localStorage w)(''auth_token'' := None),
              navigations := navigations w @ [Location_href ''/login''],
              console := console w @ [JObj (obj_of_RegisterClientRequest n)]\<rparr>,
            \<lparr>status = Error, data = None, error = Some (AxiosError 401 b)\<rparr>)
       \<and> clientsMutation w q (Reply_other 401 b) =
           (w\<lparr>localStorage := (localStorage w)(''auth_token'' := None),
              navigations := navigations w @ [Location_href ''/login'']\<rparr>,
            \<lparr>status = Error, data = None, error = Some (AxiosError 401 b)\<rparr>)"
proof -
  have interceptor: "response_rejected w e =
      (w\<lparr>localStorage := (localStorage w)(''auth_token'' := None),
         navigations := navigations w @ [Location_href ''/login'']\<rparr>, e)"
    using assms by (simp add: response_rejected_def world_ops)
  have logged_out: "\<not> isAuthenticated (Some (fst (response_rejected w e)))"
    by (simp add: interceptor isAuthenticated_def getItem_def)
  have login: "loginMutation w c (Reply_other 401 b) =
      (w\<lparr>localStorage := (localStorage w)(''auth_token'' := None),
         navigations := navigations w @ [Location_href ''/login'']\<rparr>,
       \<lparr>status = Error, data = None, error = Some (AxiosError 401 b)\<rparr>)"
    by (simp add: mutations mutate_def api_call_401 world_ops)
  have register: "registerMutation w u (Reply_other 401 b) =
      (w\<lparr>localStorage := (localStorage w)(''auth_token'' := None),
         navigations := navigations w @ [Location_href ''/login'']\<rparr>,
       \<lparr>status = Error, data = None, error = Some (AxiosError 401 b)\<rparr>)"
    by (simp add: mutations mutate_def api_call_401 world_ops)
  have registerClient: "registerClientMutation w n (Reply_other 401 b) =
      (w\<lparr>localStorage := (localStorage w)(''auth_token'' := None),
         navigations := navigations w @ [Location_href ''/login''],
         console := console w @ [JObj (obj_of_RegisterClientRequest n)]\<rparr>,
       \<lparr>status = Error, data = None, error = Some (AxiosError 401 b)\<rparr>)"
    by (simp add: mutations mutate_def api_call_401 world_ops)
  have getClients: "clientsMutation w q (Reply_other 401 b) =
      (w\<lparr>localStorage := (localStorage w)(''auth_token'' := None),
         navigations := navigations w @ [Location_href ''/login'']\<rparr>,
       \<lparr>status = Error, data = None, error = Some (AxiosError 401 b)\<rparr>)"
    by (simp add: mutations mutate_def api_call_401 world_ops)
  from interceptor logged_out login register registerClient getClients
  show ?thesis by (intro conjI)
qed

text \<open>
  The theorem of C1 at the error axios builds for a 401 with the body
  \<open>{detail: "Invalid credentials"}\<close>, in a state that holds the token \<open>tok123\<close>.
\<close>

theorem unauthorized_clears_token_and_redirects_witness:
  "opt_chain (get_prop (AxiosError 401 (JObj [(''detail'', JStr ''Invalid credentials'')]))
       ''response'') ''status'' = JNum 401
   \<and> isAuthenticated (Some (setItem ''auth_token'' ''tok123'' fresh_world))
   \<and> response_rejected (setItem ''auth_token'' ''tok123'' fresh_world)
       (AxiosError 401 (JObj [(''detail'', JStr ''Invalid credentials'')])) =
       (fresh_world\<lparr>navigations := [Location_href ''/login'']\<rparr>,
        AxiosError 401 (JObj [(''detail'', JStr ''Invalid credentials'')]))
   \<and> \<not> isAuthenticated (Some (fst (response_rejected (setItem ''auth_token'' ''tok123'' fresh_world)
       (AxiosError 401 (JObj [(''detail'', JStr ''Invalid credentials'')])))))"
proof -
  have h: "opt_chain (get_prop (AxiosError 401 (JObj [(''detail'', JStr ''Invalid credentials'')]))
       ''response'') ''status'' = JNum 401"
    by (simp add: AxiosError_def get_prop_def)
  have before: "isAuthenticated (Some (setItem ''auth_token'' ''tok123'' fresh_world))"
    by (simp add: isAuthenticated_def world_ops fresh_world_def)
  have same: "(setItem ''auth_token'' ''tok123'' fresh_world)
      \<lparr>localStorage := (localStorage (setItem ''auth_token'' ''tok123'' fresh_world))
         (''auth_token'' := None),
       navigations := navigations (setItem ''auth_token'' ''tok123'' fresh_world)
         @ [Location_href ''/login'']\<rparr>
     = fresh_world\<lparr>navigations := [Location_href ''/login'']\<rparr>"
    by (simp add: world_ops fresh_world_def)
  note at_input = unauthorized_clears_token_and_redirects
    [OF h, of "setItem ''auth_token'' ''tok123'' fresh_world"]
  have rejected: "response_rejected (setItem ''auth_token'' ''tok123'' fresh_world)
       (AxiosError 401 (JObj [(''detail'', JStr ''Invalid credentials'')])) =
       (fresh_world\<lparr>navigations := [Location_href ''/login'']\<rparr>,
        AxiosError 401 (JObj [(''detail'', JStr ''Invalid credentials'')]))"
    using at_input [THEN conjunct1] by (simp only: same)
  have after: "\<not> isAuthenticated (Some (fst (response_rejected
       (setItem ''auth_token'' ''tok123'' fresh_world)
       (AxiosError 401 (JObj [(''detail'', JStr ''Invalid credentials'')])))))"
    by (rule at_input [THEN conjunct2, THEN conjunct1])
  from h before rejected after show ?thesis by (intro conjI)
qed

text \<open>
  C2, as stated, fails: a login answered with an empty \<open>access_token\<close> stores the empty
  string under \<open>auth_token\<close>, so a token is present under the key, and
  \<open>!!localStorage.getItem('auth_token')\<close> is false.
\<close>

theorem empty_token_present_not_authenticated:
  "localStorage (run fresh_world
      [Login \<lparr>login_email = ''a@b.com'', login_password = ''Secret1''\<rparr>
         (Reply_2xx \<lparr>access_token = [], token_type = ''bearer''\<rparr>)]) ''auth_token'' = Some []
   \<and> \<not> isAuthenticated (Some (run fresh_world
      [Login \<lparr>login_email = ''a@b.com'', login_password = ''Secret1''\<rparr>
         (Reply_2xx \<lparr>access_token = [], token_type = ''bearer''\<rparr>)]))"
  by (simp add: mutations mutate_def api_call_2xx isAuthenticated_def world_ops fresh_world_def)

text \<open>
  C2, amended. In every state \<open>isAuthenticated()\<close> is true if and only if a non-empty
  token is stored under \<open>auth_token\<close>. After a login that stored a non-empty token it is
  true in every later state of a run in which no event is a logout, an answer with
  status 401 or a login that stores an empty token.
\<close>

theorem authenticated_iff_nonempty_token:
  assumes "access_token d \<noteq> []" and "list_all keeps_session evs"
  shows "(isAuthenticated (Some w) \<longleftrightarrow> (\<exists>t. localStorage w ''auth_token'' = Some t \<and> t \<noteq> []))
       \<and> (\<forall>n. isAuthenticated
                 (Some (run (fst (loginMutation w0 c (Reply_2xx d))) (take n evs))))"
proof -
  have "isAuthenticated (Some (run (fst (loginMutation w0 c (Reply_2xx d))) (take n evs)))" for n
    using assms by (intro run_keeps_session list_all_take login_stores_token)
  then show ?thesis
    using authenticated_iff by blast
qed

text \<open>
  The theorem of C2 at the login of the specification's example (token \<open>tok123\<close>),
  followed by a fetch of the client list and a registration the API refuses with 422.
\<close>

theorem authenticated_iff_nonempty_token_witness:
  "access_token \<lparr>access_token = ''tok123'', token_type = ''bearer''\<rparr> \<noteq> []
   \<and> list_all keeps_session
       [GetClients \<lparr>skip = 0, limit = 100\<rparr> (Reply_2xx []),
        Register \<lparr>register_email = ''c@d.com'', register_password = ''Secret2'',
                  register_is_active = None\<rparr>
          (Reply_other 422 (JObj [(''detail'', JStr ''Email already registered'')]))]
   \<and> isAuthenticated (Some (run (fst (loginMutation fresh_world
         \<lparr>login_email = ''a@b.com'', login_password = ''Secret1''\<rparr>
         (Reply_2xx \<lparr>access_token = ''tok123'', token_type = ''bearer''\<rparr>)))
       [GetClients \<lparr>skip = 0, limit = 100\<rparr> (Reply_2xx []),
        Register \<lparr>register_email = ''c@d.com'', register_password = ''Secret2'',
                  register_is_active = None\<rparr>
          (Reply_other 422 (JObj [(''detail'', JStr ''Email already registered'')]))]))"
proof -
  have tok: "access_token \<lparr>access_token = ''tok123'', token_type = ''bearer''\<rparr> \<noteq> []"
    by simp
  have evs: "list_all keeps_session
       [GetClients \<lparr>skip = 0, limit = 100\<rparr> (Reply_2xx []),
        Register \<lparr>register_email = ''c@d.com'', register_password = ''Secret2'',
                  register_is_active = None\<rparr>
          (Reply_other 422 (JObj [(''detail'', JStr ''Email already registered'')]))]"
    by simp
  note at_input = authenticated_iff_nonempty_token [OF tok evs, THEN conjunct2, rule_format]
  have "isAuthenticated (Some (run (fst (loginMutation fresh_world
         \<lparr>login_email = ''a@b.com'', login_password = ''Secret1''\<rparr>
         (Reply_2xx \<lparr>access_token = ''tok123'', token_type = ''bearer''\<rparr>)))
       (take 2 [GetClients \<lparr>skip = 0, limit = 100\<rparr> (Reply_2xx []),
        Register \<lparr>register_email = ''c@d.com'', register_password = ''Secret2'',
                  register_is_active = None\<rparr>
          (Reply_other 422 (JObj [(''detail'', JStr ''Email already registered'')]))])))"
    by (rule at_input)
  then have "isAuthenticated (Some (run (fst (loginMutation fresh_world
         \<lparr>login_email = ''a@b.com'', login_password = ''Secret1''\<rparr>
         (Reply_2xx \<lparr>access_token = ''tok123'', token_type = ''bearer''\<rparr>)))
       [GetClients \<lparr>skip = 0, limit = 100\<rparr> (Reply_2xx []),
        Register \<lparr>register_email = ''c@d.com'', register_password = ''Secret2'',
                  register_is_active = None\<rparr>
          (Reply_other 422 (JObj [(''detail'', JStr ''Email already registered'')]))]))"
    by simp
  with tok evs show ?thesis by (intro conjI)
qed

text \<open>
  C3, as stated, fails: in the state a login with an empty \<open>access_token\<close> leaves, a token
  is present in the store and the request of \<open>getClients\<close> leaves without an
  \<open>Authorization\<close> header, since \<open>if (token)\<close> takes the empty string as false.
\<close>

theorem empty_token_no_authorization_header:
  "localStorage (fst (loginMutation fresh_world
       \<lparr>login_email = ''a@b.com'', login_password = ''Secret1''\<rparr>
       (Reply_2xx \<lparr>access_token = [], token_type = ''bearer''\<rparr>))) ''auth_token'' = Some []
   \<and> req_headers (fst (authApi_getClients (fst (loginMutation fresh_world
       \<lparr>login_email = ''a@b.com'', login_password = ''Secret1''\<rparr>
       (Reply_2xx \<lparr>access_token = [], token_type = ''bearer''\<rparr>)))
       \<lparr>skip = 0, limit = 100\<rparr> (Reply_2xx []))) ''Authorization'' = None"
  by (simp add: mutations mutate_def api_call_2xx world_ops fresh_world_def
      request_interceptor_def getClients_no_authorization)

text \<open>
  C3, amended. The request of each of the four calls of \<open>authApi\<close> leaves with the header
  \<open>Authorization: Bearer <token>\<close> when a non-empty token is stored under \<open>auth_token\<close>,
  and with no \<open>Authorization\<close> header when no token or the empty token is stored.
\<close>

theorem authorization_header_iff_nonempty_token:
  "(let bearer = (case localStorage w ''auth_token'' of
                    None \<Rightarrow> None
                  | Some t \<Rightarrow> if t = [] then None else Some (''Bearer '' @ t))
    in req_headers (fst (authApi_login w c r1)) ''Authorization'' = bearer
     \<and> req_headers (fst (authApi_register w u r2)) ''Authorization'' = bearer
     \<and> req_headers (fst (authApi_registerClient w n r3)) ''Authorization'' = bearer
     \<and> req_headers (fst (authApi_getClients w q r4)) ''Authorization'' = bearer)"
  by (simp add: Let_def authApi_login_def authApi_register_def authApi_registerClient_def
      authApi_getClients_def api_call_sent interceptor_authorization post_no_authorization
      getClients_no_authorization console_log_def split: option.splits)

text \<open>
  C4. The code does not do what the claim says. \<open>getClients\<close> passes its
  \<open>{skip, limit}\<close> to \<open>api.get\<close> as the request configuration, where axios looks for
  \<open>params\<close>: the request for \<open>{skip: 0, limit: 100}\<close> is \<open>GET /clients\<close> with no query
  parameters, and it is the same request for \<open>{skip: 20, limit: 10}\<close>.
\<close>

theorem getClients_request_has_no_params:
  "req_method (fst (authApi_getClients fresh_world \<lparr>skip = 0, limit = 100\<rparr> (Reply_2xx []))) = ''get''
   \<and> req_url (fst (authApi_getClients fresh_world \<lparr>skip = 0, limit = 100\<rparr> (Reply_2xx []))) = ''/clients''
   \<and> req_params (fst (authApi_getClients fresh_world \<lparr>skip = 0, limit = 100\<rparr> (Reply_2xx [])))
       = JUndefined
   \<and> fst (authApi_getClients fresh_world \<lparr>skip = 20, limit = 10\<rparr> (Reply_2xx []))
       = fst (authApi_getClients fresh_world \<lparr>skip = 0, limit = 100\<rparr> (Reply_2xx []))"
  by (simp add: authApi_getClients_def api_call_sent request_interceptor_def getItem_def
      fresh_world_def api_get_def obj_of_GetClientsRequest_def get_prop_def)

text \<open>
  C5. The code does not do what the claim says. A login answered by 401 with the body
  \<open>{detail: "Invalid credentials"}\<close> ends in the error state and the session is not
  authenticated, but the error of the mutation is the error axios rejected with:
  its \<open>detail\<close> is \<open>undefined\<close>, and the text of the API is under
  \<open>error.response.data.detail\<close>.
\<close>

theorem login_401_error_detail_undefined:
  "loginMutation fresh_world \<lparr>login_email = ''a@b.com'', login_password = ''Secret1''\<rparr>
       (Reply_other 401 (JObj [(''detail'', JStr ''Invalid credentials'')])) =
       (fresh_world\<lparr>navigations := [Location_href ''/login'']\<rparr>,
        \<lparr>status = Error, data = None,
         error = Some (AxiosError 401 (JObj [(''detail'', JStr ''Invalid credentials'')]))\<rparr>)
   \<and> error_detail (snd (loginMutation fresh_world
       \<lparr>login_email = ''a@b.com'', login_password = ''Secret1''\<rparr>
       (Reply_other 401 (JObj [(''detail'', JStr ''Invalid credentials'')])))) = JUndefined
   \<and> opt_chain (opt_chain (get_prop
       (AxiosError 401 (JObj [(''detail'', JStr ''Invalid credentials'')])) ''response'')
       ''data'') ''detail'' = JStr ''Invalid credentials''
   \<and> \<not> isAuthenticated (Some (fst (loginMutation fresh_world
       \<lparr>login_email = ''a@b.com'', login_password = ''Secret1''\<rparr>
       (Reply_other 401 (JObj [(''detail'', JStr ''Invalid credentials'')])))))"
proof -
  have settled: "loginMutation fresh_world \<lparr>login_email = ''a@b.com'', login_password = ''Secret1''\<rparr>
       (Reply_other 401 (JObj [(''detail'', JStr ''Invalid credentials'')])) =
       (fresh_world\<lparr>navigations := [Location_href ''/login'']\<rparr>,
        \<lparr>status = Error, data = None,
         error = Some (AxiosError 401 (JObj [(''detail'', JStr ''Invalid credentials'')]))\<rparr>)"
    by (simp add: mutations mutate_def api_call_401 world_ops fresh_world_def)
  have no_detail: "get_prop (AxiosError 401 (JObj [(''detail'', JStr ''Invalid credentials'')]))
       ''detail'' = JUndefined"
    by (simp add: AxiosError_def get_prop_def)
  have nested: "opt_chain (opt_chain (get_prop
       (AxiosError 401 (JObj [(''detail'', JStr ''Invalid credentials'')])) ''response'')
       ''data'') ''detail'' = JStr ''Invalid credentials''"
    by (simp add: AxiosError_def get_prop_def)
  have logged_out: "\<not> isAuthenticated (Some (fresh_world\<lparr>navigations := [Location_href ''/login'']\<rparr>))"
    by (simp add: isAuthenticated_def getItem_def fresh_world_def)
  show ?thesis
    unfolding settled by (simp add: no_detail nested logged_out error_detail_def)
qed

text \<open>
  C6. After two successful fetches of the client list in a row, with payloads \<open>P1\<close> then
  \<open>P2\<close>, the clients the hook holds are exactly \<open>P2\<close>, whatever it held before and
  whatever the two requests asked for.
\<close>

theorem clients_replaced_by_last_fetch:
  "clients (fst (clientsMutation (fst (clientsMutation w q1 (Reply_2xx P1))) q2 (Reply_2xx P2)))
     = P2"
  by (simp add: mutations mutate_def api_call_2xx world_ops)

text \<open>
  C7. A rejection whose response has a status other than 401, or that has no response,
  leaves the response interceptor with the state as it was (the token and the
  navigations among it) and with the same error; so a call answered with such a status,
  or not answered, is rejected with the error axios built and changes nothing.
\<close>

theorem other_errors_pass_through:
  assumes "opt_chain (get_prop e ''response'') ''status'' \<noteq> JNum 401" and "s \<noteq> 401"
  shows "response_rejected w e = (w, e)
       \<and> api_call w q (Reply_other s b) = (request_interceptor w q, w, Inl (AxiosError s b))
       \<and> api_call w q No_reply = (request_interceptor w q, w, Inl NetworkError)"
  using assms by (simp add: response_rejected_def api_call_other api_call_no_reply)

text \<open>
  The theorem of C7 at a 500 answered to a fetch of the client list, in a state that
  holds the token \<open>tok123\<close>.
\<close>

theorem other_errors_pass_through_witness:
  "opt_chain (get_prop (AxiosError 500 (JObj [(''detail'', JStr ''Internal Server Error'')]))
       ''response'') ''status'' \<noteq> JNum 401
   \<and> (500 :: int) \<noteq> 401
   \<and> response_rejected (setItem ''auth_token'' ''tok123'' fresh_world)
        (AxiosError 500 (JObj [(''detail'', JStr ''Internal Server Error'')])) =
        (setItem ''auth_token'' ''tok123'' fresh_world,
         AxiosError 500 (JObj [(''detail'', JStr ''Internal Server Error'')]))
   \<and> snd (api_call (setItem ''auth_token'' ''tok123'' fresh_world)
        (api_get ''/clients'' (obj_of_GetClientsRequest \<lparr>skip = 0, limit = 100\<rparr>))
        (Reply_other 500 (JObj [(''detail'', JStr ''Internal Server Error'')]) :: Client list reply)) =
        (setItem ''auth_token'' ''tok123'' fresh_world,
         Inl (AxiosError 500 (JObj [(''detail'', JStr ''Internal Server Error'')])))"
proof -
  have h: "opt_chain (get_prop (AxiosError 500 (JObj [(''detail'', JStr ''Internal Server Error'')]))
       ''response'') ''status'' \<noteq> JNum 401"
    by (simp add: AxiosError_def get_prop_def)
  have s: "(500 :: int) \<noteq> 401"
    by simp
  note at_input = other_errors_pass_through [OF h s]
  have interceptor: "response_rejected (setItem ''auth_token'' ''tok123'' fresh_world)
        (AxiosError 500 (JObj [(''detail'', JStr ''Internal Server Error'')])) =
        (setItem ''auth_token'' ''tok123'' fresh_world,
         AxiosError 500 (JObj [(''detail'', JStr ''Internal Server Error'')]))"
    by (rule at_input [THEN conjunct1])
  have call: "api_call (setItem ''auth_token'' ''tok123'' fresh_world)
        (api_get ''/clients'' (obj_of_GetClientsRequest \<lparr>skip = 0, limit = 100\<rparr>))
        (Reply_other 500 (JObj [(''detail'', JStr ''Internal Server Error'')]) :: Client list reply) =
        (request_interceptor (setItem ''auth_token'' ''tok123'' fresh_world)
           (api_get ''/clients'' (obj_of_GetClientsRequest \<lparr>skip = 0, limit = 100\<rparr>)),
         setItem ''auth_token'' ''tok123'' fresh_world,
         Inl (AxiosError 500 (JObj [(''detail'', JStr ''Internal Server Error'')])))"
    by (rule at_input [THEN conjunct2, THEN conjunct1])
  from h s interceptor show ?thesis by (simp add: call)
qed

text \<open>
  C8. Where there is no \<open>window\<close>, \<open>isAuthenticated()\<close> returns false: it returns before
  it reads \<open>localStorage\<close>, so nothing can fail.
\<close>

theorem isAuthenticated_without_window: "isAuthenticated None = False"
  by (simp add: isAuthenticated_def)

text \<open>
  C9. From any state, \<open>logout\<close> removes the token stored under \<open>auth_token\<close>, so that
  \<open>isAuthenticated()\<close> is false, empties the clients the hook holds and pushes \<open>/login\<close>
  to the router, and nothing else navigates.
\<close>

theorem logout_destroys_session:
  "localStorage (logout w) ''auth_token'' = None
   \<and> \<not> isAuthenticated (Some (logout w))
   \<and> clients (logout w) = []
   \<and> navigations (logout w) = navigations w @ [Router_push ''/login'']"
  by (simp add: logout_def isAuthenticated_def world_ops)

text \<open>
  C10. A registration that succeeds changes the state by one \<open>router.push\<close> to the login
  view and nothing else, which is all its success hook does: \<open>localStorage\<close> is what it
  was, and so is the answer of \<open>isAuthenticated()\<close>.
\<close>

theorem register_success_keeps_session_store:
  "registerMutation w u (Reply_2xx d) =
     (w\<lparr>navigations := navigations w @ [Router_push ''/login?message=Registration successful'']\<rparr>,
      \<lparr>status = Success, data = Some d, error = None\<rparr>)
   \<and> register_onSuccess d w =
       w\<lparr>navigations := navigations w @ [Router_push ''/login?message=Registration successful'']\<rparr>
   \<and> localStorage (fst (registerMutation w u (Reply_2xx d))) = localStorage w
   \<and> isAuthenticated (Some (fst (registerMutation w u (Reply_2xx d)))) = isAuthenticated (Some w)"
  by (simp add: mutations mutate_def api_call_2xx isAuthenticated_def world_ops)

end
